theory Spec2Isabelle
  imports Complex_Main "HOL-Library.Sublist"
begin

section \<open>Python values, dictionaries and exceptions\<close>

text \<open>
  The two credentials of \<^verbatim>\<open>azure/identity/_credentials\<close> (\<^verbatim>\<open>browser.py\<close> and
  \<^verbatim>\<open>device_code.py\<close>) orchestrate calls to collaborators: the redirect server class, the
  MSAL application, \<^verbatim>\<open>webbrowser\<close>, \<^verbatim>\<open>platform\<close>, \<^verbatim>\<open>subprocess\<close> and \<^verbatim>\<open>time\<close>.
  The collaborators are parameters of the model (an environment record of functions that
  say what each call returns or raises); every call is recorded in a trace, so that the
  order and the arguments of the calls can be stated.
\<close>

datatype pyval = PyNone | PyInt int | PyStr string

text \<open>A Python \<^verbatim>\<open>dict\<close> with string keys: an association list, looked up with \<open>map_of\<close>.\<close>

type_synonym py_dict = "(string \<times> pyval) list"

datatype exn =
    CredentialUnavailableError string
  | ClientAuthenticationError string
  | ValueError string
  | SocketError
  | KeyError string
  | TypeError
  | OtherException string

text \<open>Truthiness of a value (\<^verbatim>\<open>if v:\<close>, \<^verbatim>\<open>a or b\<close>).\<close>

fun truthy :: "pyval \<Rightarrow> bool" where
  "truthy PyNone = False"
| "truthy (PyInt n) = (n \<noteq> 0)"
| "truthy (PyStr s) = (s \<noteq> [])"

text \<open>\<^verbatim>\<open>str(n)\<close> for an integer: decimal digits, a minus sign when negative.\<close>

definition digit_char :: "nat \<Rightarrow> char" where
  "digit_char d = ''0123456789'' ! d"

fun str_of_nat :: "nat \<Rightarrow> string" where
  "str_of_nat n = (if n < 10 then [digit_char n] else str_of_nat (n div 10) @ [digit_char (n mod 10)])"

declare str_of_nat.simps [simp del]

definition str_of_int :: "int \<Rightarrow> string" where
  "str_of_int i = (if i < 0 then CHR ''-'' # str_of_nat (nat (- i)) else str_of_nat (nat i))"

text \<open>\<^verbatim>\<open>"{}".format(v)\<close>, which is \<^verbatim>\<open>str(v)\<close>.\<close>

fun py_str :: "pyval \<Rightarrow> string" where
  "py_str PyNone = ''None''"
| "py_str (PyInt n) = str_of_int n"
| "py_str (PyStr s) = s"

text \<open>\<^verbatim>\<open>d.get(k)\<close>: the value, or \<^verbatim>\<open>None\<close> when the key is missing.\<close>

definition dict_get :: "py_dict \<Rightarrow> string \<Rightarrow> pyval" where
  "dict_get d k = (case map_of d k of None \<Rightarrow> PyNone | Some v \<Rightarrow> v)"

text \<open>\<^verbatim>\<open>d[k]\<close>: the value, or \<^verbatim>\<open>KeyError\<close> when the key is missing.\<close>

definition dict_index :: "py_dict \<Rightarrow> string \<Rightarrow> exn + pyval" where
  "dict_index d k = (case map_of d k of None \<Rightarrow> Inl (KeyError k) | Some v \<Rightarrow> Inr v)"

text \<open>\<^verbatim>\<open>s.lower()\<close> on ASCII text (the strings compared against are ASCII).\<close>

definition lower_char :: "char \<Rightarrow> char" where
  "lower_char c =
     (case map_of (zip ''ABCDEFGHIJKLMNOPQRSTUVWXYZ'' ''abcdefghijklmnopqrstuvwxyz'') c of
        None \<Rightarrow> c
      | Some l \<Rightarrow> l)"

definition lower :: "string \<Rightarrow> string" where
  "lower s = map lower_char s"

text \<open>\<^verbatim>\<open>needle in hay\<close> on strings: \<open>needle\<close> occurs as a contiguous substring.\<close>

fun str_contains :: "string \<Rightarrow> string \<Rightarrow> bool" where
  "str_contains needle [] = (needle = [])"
| "str_contains needle (c # cs) = (prefix needle (c # cs) \<or> str_contains needle cs)"

section \<open>Collaborators, events and the world\<close>

text \<open>
  \<^verbatim>\<open>urlparse(redirect_uri)\<close> gives an object whose \<^verbatim>\<open>hostname\<close> is a string or
  \<^verbatim>\<open>None\<close> and whose \<^verbatim>\<open>port\<close> is an integer or \<^verbatim>\<open>None\<close>; reading \<^verbatim>\<open>port\<close> raises
  \<^verbatim>\<open>ValueError\<close> in urllib when the port is not a number in range.
\<close>

record parsed_url =
  hostname :: "string option"
  port :: "exn + int option"

text \<open>The server object a successful call of the server class returns.\<close>

record server =
  srv_hostname :: "string option"
  srv_port :: "int option"
  srv_timeout :: int

text \<open>\<^verbatim>\<open>platform.uname()\<close>: index 0 is the system, index 2 the release.\<close>

record uname_result =
  uname_system :: string
  uname_node :: string
  uname_release :: string

text \<open>
  The closure \<^verbatim>\<open>lambda flow: time.time() > deadline\<close> of \<^verbatim>\<open>device_code.py\<close>, as the
  deadline it captures; \<open>exit_condition_holds c now\<close> is what it returns when the clock
  reads \<open>now\<close> (seconds, as a rational number).
\<close>

datatype exit_condition = TimeAfter int

fun exit_condition_holds :: "exit_condition \<Rightarrow> rat \<Rightarrow> bool" where
  "exit_condition_holds (TimeAfter deadline) now = (now > of_int deadline)"

text \<open>A \<^verbatim>\<open>datetime\<close>, as the seconds since the epoch it stands for.\<close>

datatype datetime = UtcDatetime int

datatype event =
    ServerClass "string option" "int option" int
  | GetApp py_dict
  | InitiateAuthCodeFlow "string list" string string pyval pyval
  | WebbrowserOpen pyval
  | Uname
  | SubprocessCall "string list" int
  | WaitForRedirect server
  | AcquireTokenByAuthCodeFlow py_dict py_dict "string list" pyval
  | InitiateDeviceFlow "string list"
  | PromptCallback pyval pyval datetime
  | Print pyval
  | TimeTime
  | AcquireTokenByDeviceFlow py_dict "exit_condition option" pyval

text \<open>
  The world a call runs in: the calls made so far, the sockets bound and not yet
  released (host and port), and the number of inbound requests the listeners serviced.
\<close>

record world =
  trace :: "event list"
  open_sockets :: "(string option \<times> int option) list"
  serviced :: nat

definition log :: "event \<Rightarrow> world \<Rightarrow> world" where
  "log e w = w\<lparr>trace := trace w @ [e]\<rparr>"

text \<open>
  What the collaborators of \<^verbatim>\<open>InteractiveBrowserCredential\<close> answer. \<open>server_class\<close> and
  \<open>get_app\<close> give the exception the call raises, if any; the others the exception or the
  value. \<open>within_dac\<close> is the value of the context variable \<^verbatim>\<open>within_dac\<close>.
\<close>

record browser_env =
  server_class :: "string option \<Rightarrow> int option \<Rightarrow> int \<Rightarrow> exn option"
  listener_result :: "server \<Rightarrow> py_dict"
  get_app :: "py_dict \<Rightarrow> exn option"
  initiate_auth_code_flow :: "string list \<Rightarrow> string \<Rightarrow> string \<Rightarrow> pyval \<Rightarrow> pyval \<Rightarrow> exn + py_dict"
  acquire_token_by_auth_code_flow :: "py_dict \<Rightarrow> py_dict \<Rightarrow> string list \<Rightarrow> pyval \<Rightarrow> exn + py_dict"
  webbrowser_open :: "pyval \<Rightarrow> exn + bool"
  uname :: uname_result
  subprocess_call :: "string list \<Rightarrow> int \<Rightarrow> exn + int"
  within_dac :: bool

section \<open>The redirect listener\<close>

text \<open>
  Modelled from the spec: the class \<^verbatim>\<open>AuthCodeRedirectServer\<close> of
  \<^verbatim>\<open>azure/identity/_internal\<close> is not among the sources. The spec's RedirectListener
  binds a local endpoint when it is created; a creation that does not raise leaves the
  socket bound.
\<close>

definition bind_server :: "string option \<Rightarrow> int option \<Rightarrow> int \<Rightarrow> world \<Rightarrow> server \<times> world" where
  "bind_server h p t w =
     (\<lparr>srv_hostname = h, srv_port = p, srv_timeout = t\<rparr>,
      w\<lparr>open_sockets := open_sockets w @ [(h, p)]\<rparr>)"

text \<open>
  Modelled from the spec: \<^verbatim>\<open>AuthCodeRedirectServer.wait_for_redirect\<close> is not among the
  sources. By the spec it blocks up to the timeout, returns the query parameters of the
  single request it serviced or nothing (the empty dictionary) on expiry, and releases
  its bound port on completion or timeout regardless of outcome.
\<close>

definition wait_for_redirect :: "browser_env \<Rightarrow> server \<Rightarrow> world \<Rightarrow> py_dict \<times> world" where
  "wait_for_redirect env srv w =
     (let response = listener_result env srv;
          w1 = log (WaitForRedirect srv) w
      in (response,
          w1\<lparr>open_sockets := removeAll (srv_hostname srv, srv_port srv) (open_sockets w1),
             serviced := serviced w1 + (if response = [] then 0 else 1)\<rparr>))"

section \<open>browser.py\<close>

subsection \<open>The exception wrapper\<close>

text \<open>
  Modelled from the spec: the decorator \<^verbatim>\<open>wrap_exceptions\<close> of
  \<^verbatim>\<open>azure/identity/_internal\<close> is not among the sources. By the spec (section 7) the
  failures classified by the controller are raised as they are and every other failure of
  a collaborator "is not reinterpreted; it passes through unchanged", so the decorated
  method gives what its body gives.
\<close>

definition wrap_exceptions :: "(exn + 'a) \<times> world \<Rightarrow> (exn + 'a) \<times> world" where
  "wrap_exceptions r = r"

subsection \<open>\<^verbatim>\<open>_open_browser\<close>\<close>

definition powershell_args :: "pyval \<Rightarrow> string list" where
  "powershell_args url =
     [''powershell.exe'', ''-NoProfile'', ''-Command'',
      ''Start-Process '' @ [CHR 0x22] @ py_str url @ [CHR 0x22]]"

definition open_browser :: "browser_env \<Rightarrow> pyval \<Rightarrow> world \<Rightarrow> (exn + bool) \<times> world" where
  "open_browser env url w =
     (let w1 = log (WebbrowserOpen url) w in
      case webbrowser_open env url of
        Inl ex \<Rightarrow> (Inl ex, w1)
      | Inr opened \<Rightarrow>
          if \<not> opened then
            (let w2 = log Uname w1;
                 system = lower (uname_system (uname env));
                 release = lower (uname_release (uname env))
             in if str_contains ''microsoft'' release \<and> system = ''linux'' then
                  (let w3 = log (SubprocessCall (powershell_args url) 5) w2 in
                   case subprocess_call env (powershell_args url) 5 of
                     Inl ex \<Rightarrow> (Inr opened, w3)
                   | Inr exit_code \<Rightarrow> (Inr (exit_code = 0), w3))
                else (Inr opened, w2))
          else (Inr opened, w1))"

subsection \<open>\<^verbatim>\<open>InteractiveBrowserCredential.__init__\<close>\<close>

record browser_credential =
  parsed_url :: "parsed_url option"
  login_hint :: pyval
  timeout :: int

text \<open>
  The keyword arguments the constructor pops; \<open>None\<close> is a keyword that was not given.
\<close>

record browser_kwargs =
  kw_redirect_uri :: "string option"
  kw_login_hint :: "pyval option"
  kw_timeout :: "int option"

definition redirect_uri_error :: exn where
  "redirect_uri_error =
     ValueError (''\"redirect_uri\" must be a URL with port number, for example \"http://localhost:8400\"'')"

text \<open>
  \<open>urlparse\<close> is urllib's function (it may raise); \<open>super_init\<close> is what the base class's
  initialiser raises, if anything. \<^verbatim>\<open>hostname and port\<close> is falsy when the hostname is
  \<^verbatim>\<open>None\<close> or empty (the port is then not read), or the port is \<^verbatim>\<open>None\<close> or \<open>0\<close>.
\<close>

definition browser_init ::
  "(string \<Rightarrow> exn + parsed_url) \<Rightarrow> exn option \<Rightarrow> browser_kwargs \<Rightarrow> exn + browser_credential" where
  "browser_init urlparse super_init kwargs =
     (case (case kw_redirect_uri kwargs of
              None \<Rightarrow> Inr None
            | Some redirect_uri \<Rightarrow>
                if redirect_uri = [] then Inr None
                else (case urlparse redirect_uri of
                        Inl ex \<Rightarrow> Inl ex
                      | Inr u \<Rightarrow>
                          (case hostname u of
                             None \<Rightarrow> Inl redirect_uri_error
                           | Some h \<Rightarrow>
                               if h = [] then Inl redirect_uri_error
                               else (case port u of
                                       Inl ex \<Rightarrow> Inl ex
                                     | Inr None \<Rightarrow> Inl redirect_uri_error
                                     | Inr (Some p) \<Rightarrow>
                                         if p = 0 then Inl redirect_uri_error else Inr (Some u)))))
      of
        Inl ex \<Rightarrow> Inl ex
      | Inr pu \<Rightarrow>
          (case super_init of
             Some ex \<Rightarrow> Inl ex
           | None \<Rightarrow>
               Inr \<lparr>parsed_url = pu,
                    login_hint = (case kw_login_hint kwargs of None \<Rightarrow> PyNone | Some v \<Rightarrow> v),
                    timeout = (case kw_timeout kwargs of None \<Rightarrow> 300 | Some t \<Rightarrow> t)\<rparr>))"

subsection \<open>\<^verbatim>\<open>InteractiveBrowserCredential._request_token\<close>\<close>

text \<open>\<^verbatim>\<open>"{}".format(x)\<close> for the hostname and the port of a parsed URL.\<close>

definition str_of_hostname :: "string option \<Rightarrow> string" where
  "str_of_hostname h = (case h of None \<Rightarrow> ''None'' | Some s \<Rightarrow> s)"

definition str_of_port :: "int option \<Rightarrow> string" where
  "str_of_port p = (case p of None \<Rightarrow> ''None'' | Some n \<Rightarrow> str_of_int n)"

text \<open>\<^verbatim>\<open>range(8400, 9000)\<close>: the ports 8400 to 8999, in increasing order.\<close>

definition port_range :: "int list" where
  "port_range = [8400..8999]"

text \<open>
  The loop \<^verbatim>\<open>for port in range(8400, 9000)\<close> over the ports still to try: a
  \<^verbatim>\<open>socket.error\<close> continues with the next port, any other exception leaves the method,
  a server that was created ends the loop. The result is the server and the redirect
  URI, or \<open>None\<close> when the ports are exhausted (\<^verbatim>\<open>server\<close> is still \<^verbatim>\<open>None\<close>).
\<close>

fun scan_ports ::
  "browser_env \<Rightarrow> int \<Rightarrow> int list \<Rightarrow> world \<Rightarrow> (exn + (server \<times> string) option) \<times> world" where
  "scan_ports env t [] w = (Inr None, w)"
| "scan_ports env t (p # ps) w =
     (let w1 = log (ServerClass (Some ''localhost'') (Some p) t) w in
      case server_class env (Some ''localhost'') (Some p) t of
        None \<Rightarrow>
          (let (server, w2) = bind_server (Some ''localhost'') (Some p) t w1
           in (Inr (Some (server, ''http://localhost:'' @ str_of_int p)), w2))
      | Some SocketError \<Rightarrow> scan_ports env t ps w1
      | Some ex \<Rightarrow> (Inl ex, w1))"

text \<open>
  Lines 88 to 106: the server is started on the host and port of the parsed URL when
  there is one, on the first free port of 8400 to 8999 otherwise. A server object is
  truthy, so \<^verbatim>\<open>if not server\<close> holds exactly when the loop ended without one. The cause
  attached by \<^verbatim>\<open>raise ... from ex\<close> is not part of the model.
\<close>

definition start_server ::
  "browser_env \<Rightarrow> browser_credential \<Rightarrow> world \<Rightarrow> (exn + server \<times> string) \<times> world" where
  "start_server env self w =
     (case parsed_url self of
        Some u \<Rightarrow>
          (case port u of
             Inl ex \<Rightarrow> (Inl ex, w)
           | Inr p \<Rightarrow>
               (let redirect_uri = ''http://'' @ str_of_hostname (hostname u) @ '':'' @ str_of_port p;
                    w1 = log (ServerClass (hostname u) p (timeout self)) w
                in case server_class env (hostname u) p (timeout self) of
                     None \<Rightarrow>
                       (let (server, w2) = bind_server (hostname u) p (timeout self) w1
                        in (Inr (server, redirect_uri), w2))
                   | Some SocketError \<Rightarrow>
                       (Inl (CredentialUnavailableError
                               (''Couldn't start an HTTP server on '' @ redirect_uri)), w1)
                   | Some ex \<Rightarrow> (Inl ex, w1)))
      | None \<Rightarrow>
          (case scan_ports env (timeout self) port_range w of
             (Inl ex, w1) \<Rightarrow> (Inl ex, w1)
           | (Inr None, w1) \<Rightarrow>
               (Inl (CredentialUnavailableError ''Couldn't start an HTTP server on localhost''), w1)
           | (Inr (Some sr), w1) \<Rightarrow> (Inr sr, w1)))"

definition timed_out_message :: "int \<Rightarrow> string" where
  "timed_out_message t =
     ''Timed out after waiting '' @ str_of_int t @ '' seconds for the user to authenticate''"

text \<open>The body of the method, lines 85 to 137.\<close>

definition request_token_body ::
  "browser_env \<Rightarrow> browser_credential \<Rightarrow> string list \<Rightarrow> py_dict \<Rightarrow> world \<Rightarrow> (exn + py_dict) \<times> world" where
  "request_token_body env self scopes kwargs w =
     (case start_server env self w of
        (Inl ex, w1) \<Rightarrow> (Inl ex, w1)
      | (Inr (server, redirect_uri), w1) \<Rightarrow>
          (let claims = dict_get kwargs ''claims'';
               w2 = log (GetApp kwargs) w1
           in case get_app env kwargs of
                Some ex \<Rightarrow> (Inl ex, w2)
              | None \<Rightarrow>
                  (let w3 = log (InitiateAuthCodeFlow scopes redirect_uri ''select_account''
                                   claims (login_hint self)) w2
                   in case initiate_auth_code_flow env scopes redirect_uri ''select_account''
                             claims (login_hint self) of
                        Inl ex \<Rightarrow> (Inl ex, w3)
                      | Inr flow \<Rightarrow>
                          (case map_of flow ''auth_uri'' of
                             None \<Rightarrow>
                               (Inl (CredentialUnavailableError
                                       ''Failed to begin authentication flow''), w3)
                           | Some auth_uri \<Rightarrow>
                               (case open_browser env auth_uri w3 of
                                  (Inl ex, w4) \<Rightarrow> (Inl ex, w4)
                                | (Inr opened, w4) \<Rightarrow>
                                    if \<not> opened then
                                      (Inl (CredentialUnavailableError
                                              ''Failed to open a browser''), w4)
                                    else
                                      (let (response, w5) = wait_for_redirect env server w4 in
                                       if response = [] then
                                         (if within_dac env then
                                            (Inl (CredentialUnavailableError
                                                    (timed_out_message (timeout self))), w5)
                                          else
                                            (Inl (ClientAuthenticationError
                                                    (timed_out_message (timeout self))), w5))
                                       else
                                         (acquire_token_by_auth_code_flow env flow response
                                            scopes claims,
                                          log (AcquireTokenByAuthCodeFlow flow response
                                                 scopes claims) w5)))))))"

definition browser_request_token ::
  "browser_env \<Rightarrow> browser_credential \<Rightarrow> string list \<Rightarrow> py_dict \<Rightarrow> world \<Rightarrow> (exn + py_dict) \<times> world" where
  "browser_request_token env self scopes kwargs w =
     wrap_exceptions (request_token_body env self scopes kwargs w)"

section \<open>device_code.py\<close>

record device_env =
  dev_get_app :: "py_dict \<Rightarrow> exn option"
  initiate_device_flow :: "string list \<Rightarrow> exn + py_dict"
  utcfromtimestamp :: "pyval \<Rightarrow> exn + datetime"
  time_time :: rat
  acquire_token_by_device_flow :: "py_dict \<Rightarrow> exit_condition option \<Rightarrow> pyval \<Rightarrow> exn + py_dict"

record device_credential =
  device_timeout :: "int option"
  prompt_callback :: "(pyval \<Rightarrow> pyval \<Rightarrow> datetime \<Rightarrow> exn option) option"

text \<open>\<^verbatim>\<open>DeviceCodeCredential.__init__\<close> stores the two keywords (the base initialiser aside).\<close>

definition device_init ::
  "exn option \<Rightarrow> int option \<Rightarrow> (pyval \<Rightarrow> pyval \<Rightarrow> datetime \<Rightarrow> exn option) option
     \<Rightarrow> exn + device_credential" where
  "device_init super_init t callback =
     (case super_init of
        Some ex \<Rightarrow> Inl ex
      | None \<Rightarrow> Inr \<lparr>device_timeout = t, prompt_callback = callback\<rparr>)"

text \<open>\<^verbatim>\<open>int(x)\<close> of a clock reading: truncation towards zero.\<close>

definition py_int :: "rat \<Rightarrow> int" where
  "py_int x = (if 0 \<le> x then \<lfloor>x\<rfloor> else \<lceil>x\<rceil>)"

text \<open>
  Lines 98 to 103: the callback is called with the verification URI, the user code and
  the expiry, or the flow's message is printed.
\<close>

definition show_prompt ::
  "device_env \<Rightarrow> device_credential \<Rightarrow> py_dict \<Rightarrow> world \<Rightarrow> (exn + unit) \<times> world" where
  "show_prompt env self flow w =
     (case prompt_callback self of
        Some callback \<Rightarrow>
          (case dict_index flow ''verification_uri'' of
             Inl ex \<Rightarrow> (Inl ex, w)
           | Inr verification_uri \<Rightarrow>
               (case dict_index flow ''user_code'' of
                  Inl ex \<Rightarrow> (Inl ex, w)
                | Inr user_code \<Rightarrow>
                    (case dict_index flow ''expires_at'' of
                       Inl ex \<Rightarrow> (Inl ex, w)
                     | Inr expires_at \<Rightarrow>
                         (case utcfromtimestamp env expires_at of
                            Inl ex \<Rightarrow> (Inl ex, w)
                          | Inr expires_on \<Rightarrow>
                              (let w1 = log (PromptCallback verification_uri user_code expires_on) w
                               in case callback verification_uri user_code expires_on of
                                    Some ex \<Rightarrow> (Inl ex, w1)
                                  | None \<Rightarrow> (Inr (), w1))))))
      | None \<Rightarrow>
          (case dict_index flow ''message'' of
             Inl ex \<Rightarrow> (Inl ex, w)
           | Inr message \<Rightarrow> (Inr (), log (Print message) w)))"

text \<open>
  Lines 105 to 113: the call of \<^verbatim>\<open>acquire_token_by_device_flow\<close>, with an exit condition
  when a timeout was given and is less than the flow's \<^verbatim>\<open>expires_in\<close>. The comparison
  reads \<^verbatim>\<open>flow["expires_in"]\<close> only when the timeout is not \<^verbatim>\<open>None\<close>, and raises
  \<^verbatim>\<open>TypeError\<close> when the value is not a number.
\<close>

definition poll ::
  "device_env \<Rightarrow> device_credential \<Rightarrow> py_dict \<Rightarrow> py_dict \<Rightarrow> world \<Rightarrow> (exn + py_dict) \<times> world" where
  "poll env self flow kwargs w =
     (case (case device_timeout self of
              None \<Rightarrow> Inr None
            | Some t \<Rightarrow>
                (case dict_index flow ''expires_in'' of
                   Inl ex \<Rightarrow> Inl ex
                 | Inr (PyInt expires_in) \<Rightarrow> Inr (if t < expires_in then Some t else None)
                 | Inr _ \<Rightarrow> Inl TypeError))
      of
        Inl ex \<Rightarrow> (Inl ex, w)
      | Inr (Some t) \<Rightarrow>
          (let w1 = log TimeTime w;
               deadline = py_int (time_time env) + t;
               claims = dict_get kwargs ''claims''
           in (acquire_token_by_device_flow env flow (Some (TimeAfter deadline)) claims,
               log (AcquireTokenByDeviceFlow flow (Some (TimeAfter deadline)) claims) w1))
      | Inr None \<Rightarrow>
          (let claims = dict_get kwargs ''claims''
           in (acquire_token_by_device_flow env flow None claims,
               log (AcquireTokenByDeviceFlow flow None claims) w)))"

text \<open>The body of \<^verbatim>\<open>DeviceCodeCredential._request_token\<close>, lines 87 to 120.\<close>

definition device_request_token_body ::
  "device_env \<Rightarrow> device_credential \<Rightarrow> string list \<Rightarrow> py_dict \<Rightarrow> world \<Rightarrow> (exn + py_dict) \<times> world" where
  "device_request_token_body env self scopes kwargs w =
     (let w1 = log (GetApp kwargs) w in
      case dev_get_app env kwargs of
        Some ex \<Rightarrow> (Inl ex, w1)
      | None \<Rightarrow>
          (let w2 = log (InitiateDeviceFlow scopes) w1 in
           case initiate_device_flow env scopes of
             Inl ex \<Rightarrow> (Inl ex, w2)
           | Inr flow \<Rightarrow>
               if map_of flow ''error'' \<noteq> None then
                 (Inl (ClientAuthenticationError
                         (''Couldn't begin authentication: '' @
                            py_str (if truthy (dict_get flow ''error_description'')
                                    then dict_get flow ''error_description''
                                    else dict_get flow ''error''))), w2)
               else
                 (case show_prompt env self flow w2 of
                    (Inl ex, w3) \<Rightarrow> (Inl ex, w3)
                  | (Inr u, w3) \<Rightarrow>
                      (case poll env self flow kwargs w3 of
                         (Inl ex, w4) \<Rightarrow> (Inl ex, w4)
                       | (Inr result, w4) \<Rightarrow>
                           if map_of result ''access_token'' = None
                              \<and> dict_get result ''error'' = PyStr ''authorization_pending''
                           then (Inl (ClientAuthenticationError
                                        ''Timed out waiting for user to authenticate''), w4)
                           else (Inr result, w4)))))"

definition device_request_token ::
  "device_env \<Rightarrow> device_credential \<Rightarrow> string list \<Rightarrow> py_dict \<Rightarrow> world \<Rightarrow> (exn + py_dict) \<times> world" where
  "device_request_token env self scopes kwargs w =
     wrap_exceptions (device_request_token_body env self scopes kwargs w)"

section \<open>Reading a trace\<close>

text \<open>The calls of \<^verbatim>\<open>subprocess.call\<close> in a trace, with their timeouts, in order.\<close>

fun fallback_calls :: "event list \<Rightarrow> (string list \<times> int) list" where
  "fallback_calls [] = []"
| "fallback_calls (SubprocessCall args t # es) = (args, t) # fallback_calls es"
| "fallback_calls (e # es) = fallback_calls es"

text \<open>The hosts and ports the server class was called with, in order.\<close>

fun bind_attempts :: "event list \<Rightarrow> (string option \<times> int option) list" where
  "bind_attempts [] = []"
| "bind_attempts (ServerClass h p t # es) = (h, p) # bind_attempts es"
| "bind_attempts (e # es) = bind_attempts es"

text \<open>The servers \<^verbatim>\<open>wait_for_redirect\<close> was called on, in order.\<close>

fun waits :: "event list \<Rightarrow> server list" where
  "waits [] = []"
| "waits (WaitForRedirect srv # es) = srv # waits es"
| "waits (e # es) = waits es"

section \<open>Example collaborators\<close>

definition world0 :: world where
  "world0 = \<lparr>trace = [], open_sockets = [], serviced = 0\<rparr>"

text \<open>
  An environment in which every step succeeds: every port is free, the flow has an
  authorization URI, the browser opens, the redirect arrives and the code is redeemed.
\<close>

definition example_auth_flow :: py_dict where
  "example_auth_flow =
     [(''auth_uri'', PyStr ''https://login.example/authorize''),
      (''state'', PyStr ''xyz'')]"

definition example_env :: browser_env where
  "example_env =
     \<lparr>server_class = (\<lambda>h p t. None),
      listener_result = (\<lambda>srv. [(''code'', PyStr ''abc''), (''state'', PyStr ''xyz'')]),
      get_app = (\<lambda>kwargs. None),
      initiate_auth_code_flow = (\<lambda>scopes uri prompt claims hint. Inr example_auth_flow),
      acquire_token_by_auth_code_flow =
        (\<lambda>flow response scopes claims. Inr [(''access_token'', PyStr ''secret'')]),
      webbrowser_open = (\<lambda>url. Inr True),
      uname = \<lparr>uname_system = ''Linux'', uname_node = ''host'', uname_release = ''6.1.0-18-amd64''\<rparr>,
      subprocess_call = (\<lambda>args t. Inl (OtherException ''FileNotFoundError'')),
      within_dac = False\<rparr>"

text \<open>The same on the Windows Subsystem for Linux, where no browser opens directly.\<close>

definition wsl_env :: browser_env where
  "wsl_env =
     example_env
       \<lparr>webbrowser_open := (\<lambda>url. Inr False),
        uname := \<lparr>uname_system = ''Linux'', uname_node = ''host'',
                  uname_release = ''5.15.90.1-microsoft-standard-WSL2''\<rparr>,
        subprocess_call := (\<lambda>args t. Inr 0)\<rparr>"

text \<open>Environments in which one step fails.\<close>

definition no_browser_env :: browser_env where
  "no_browser_env = example_env\<lparr>webbrowser_open := (\<lambda>url. Inr False)\<rparr>"

definition no_auth_uri_env :: browser_env where
  "no_auth_uri_env =
     example_env\<lparr>initiate_auth_code_flow :=
       (\<lambda>scopes uri prompt claims hint. Inr [(''error'', PyStr ''invalid_request'')])\<rparr>"

definition busy_env :: browser_env where
  "busy_env =
     example_env\<lparr>server_class :=
       (\<lambda>h p t. case p of
                   None \<Rightarrow> None
                 | Some q \<Rightarrow> if 8400 \<le> q \<and> q \<le> 8405 then Some SocketError else None)\<rparr>"

definition no_port_env :: browser_env where
  "no_port_env = example_env\<lparr>server_class := (\<lambda>h p t. Some SocketError)\<rparr>"

definition timeout_env :: "bool \<Rightarrow> browser_env" where
  "timeout_env dac = example_env\<lparr>listener_result := (\<lambda>srv. []), within_dac := dac\<rparr>"

definition exchange_error_env :: browser_env where
  "exchange_error_env =
     example_env\<lparr>acquire_token_by_auth_code_flow :=
       (\<lambda>flow response scopes claims. Inl (ValueError ''state mismatch''))\<rparr>"

text \<open>A credential made with \<^verbatim>\<open>redirect_uri="http://localhost:8400"\<close> and one made without.\<close>

definition explicit_credential :: browser_credential where
  "explicit_credential =
     \<lparr>parsed_url = Some \<lparr>hostname = Some ''localhost'', port = Inr (Some 8400)\<rparr>,
      login_hint = PyNone, timeout = 300\<rparr>"

definition default_credential :: browser_credential where
  "default_credential = \<lparr>parsed_url = None, login_hint = PyNone, timeout = 300\<rparr>"

text \<open>What urllib's \<^verbatim>\<open>urlparse\<close> gives for the URIs of the examples.\<close>

definition urlparse_example :: "string \<Rightarrow> exn + parsed_url" where
  "urlparse_example uri =
     (if uri = ''http://localhost:8400'' \<or> uri = ''http://localhost:8400/callback''
      then Inr \<lparr>hostname = Some ''localhost'', port = Inr (Some 8400)\<rparr>
      else if uri = ''http://localhost''
      then Inr \<lparr>hostname = Some ''localhost'', port = Inr None\<rparr>
      else Inl (ValueError ''not one of the example URIs''))"

text \<open>The server of \<open>explicit_credential\<close> and the worlds its run goes through.\<close>

definition example_server :: server where
  "example_server = \<lparr>srv_hostname = Some ''localhost'', srv_port = Some 8400, srv_timeout = 300\<rparr>"

definition bound_world :: world where
  "bound_world =
     \<lparr>trace = [ServerClass (Some ''localhost'') (Some 8400) 300],
      open_sockets = [(Some ''localhost'', Some 8400)], serviced = 0\<rparr>"

definition example_initiate :: event where
  "example_initiate =
     InitiateAuthCodeFlow [''scope''] ''http://localhost:8400'' ''select_account'' PyNone PyNone"

definition browser_world :: world where
  "browser_world =
     \<lparr>trace = [ServerClass (Some ''localhost'') (Some 8400) 300, GetApp [], example_initiate,
               WebbrowserOpen (PyStr ''https://login.example/authorize'')],
      open_sockets = [(Some ''localhost'', Some 8400)], serviced = 0\<rparr>"

text \<open>A device flow that expires after 600 seconds, and a credential that waits 5.\<close>

definition example_flow :: py_dict where
  "example_flow =
     [(''verification_uri'', PyStr ''https://microsoft.com/devicelogin''),
      (''user_code'', PyStr ''ABCD1234''),
      (''expires_in'', PyInt 600),
      (''expires_at'', PyInt 1700000600),
      (''message'', PyStr ''To sign in, open the page and enter the code'')]"

definition example_device_env :: device_env where
  "example_device_env =
     \<lparr>dev_get_app = (\<lambda>kwargs. None),
      initiate_device_flow = (\<lambda>scopes. Inr example_flow),
      utcfromtimestamp = (\<lambda>v. case v of PyInt n \<Rightarrow> Inr (UtcDatetime n) | _ \<Rightarrow> Inl TypeError),
      time_time = 1700000000 + 1 / 2,
      acquire_token_by_device_flow =
        (\<lambda>flow exit_condition claims. Inr [(''error'', PyStr ''authorization_pending'')])\<rparr>"

definition declined_device_env :: device_env where
  "declined_device_env =
     example_device_env\<lparr>acquire_token_by_device_flow :=
       (\<lambda>flow exit_condition claims. Inr [(''error'', PyStr ''authorization_declined'')])\<rparr>"

definition example_device_credential :: "int option \<Rightarrow> device_credential" where
  "example_device_credential t = \<lparr>device_timeout = t, prompt_callback = None\<rparr>"

definition prompted_world :: world where
  "prompted_world =
     \<lparr>trace = [GetApp [], InitiateDeviceFlow [''scope''],
               Print (PyStr ''To sign in, open the page and enter the code'')],
      open_sockets = [], serviced = 0\<rparr>"

section \<open>Facts about the helpers\<close>

lemma fallback_calls_append:
  "fallback_calls (xs @ ys) = fallback_calls xs @ fallback_calls ys"
  by (induction xs rule: fallback_calls.induct) auto

lemma bind_attempts_append:
  "bind_attempts (xs @ ys) = bind_attempts xs @ bind_attempts ys"
  by (induction xs rule: bind_attempts.induct) auto

lemma waits_append: "waits (xs @ ys) = waits xs @ waits ys"
  by (induction xs rule: waits.induct) auto

lemma py_int_le: "0 \<le> x \<Longrightarrow> of_int (py_int x) \<le> x"
  by (simp add: py_int_def)

text \<open>The browser launcher binds nothing, releases nothing and waits for nothing.\<close>

lemma open_browser_keeps:
  "open_sockets (snd (open_browser env url w)) = open_sockets w"
  "serviced (snd (open_browser env url w)) = serviced w"
  "waits (trace (snd (open_browser env url w))) = waits (trace w)"
  "bind_attempts (trace (snd (open_browser env url w))) = bind_attempts (trace w)"
  by (auto simp: open_browser_def Let_def log_def waits_append bind_attempts_append
           split: sum.splits)

lemma open_browser_trace:
  "\<exists>evs. trace (snd (open_browser env url w)) = trace w @ WebbrowserOpen url # evs"
  by (auto simp: open_browser_def Let_def log_def split: sum.splits)

text \<open>The port scan: every port failing, and the first free port.\<close>

lemma set_port_range: "q \<in> set port_range \<longleftrightarrow> 8400 \<le> q \<and> q \<le> 8999"
  by (simp only: port_range_def set_upto atLeastAtMost_iff)

lemma port_range_split:
  assumes "8400 \<le> p" "p \<le> 8999"
  shows "port_range = [8400..p - 1] @ p # [p + 1..8999]"
  unfolding port_range_def using assms by (rule upto_split3)

lemma scan_ports_exhausted:
  "(\<forall>q\<in>set ps. server_class env (Some ''localhost'') (Some q) t = Some SocketError) \<Longrightarrow>
   scan_ports env t ps w =
     (Inr None, w\<lparr>trace := trace w @ map (\<lambda>q. ServerClass (Some ''localhost'') (Some q) t) ps\<rparr>)"
  by (induction ps arbitrary: w) (simp_all add: Let_def log_def)

lemma scan_ports_first_free:
  "(\<forall>q\<in>set ps1. server_class env (Some ''localhost'') (Some q) t = Some SocketError) \<Longrightarrow>
   server_class env (Some ''localhost'') (Some p) t = None \<Longrightarrow>
   scan_ports env t (ps1 @ p # ps2) w =
     (Inr (Some (\<lparr>srv_hostname = Some ''localhost'', srv_port = Some p, srv_timeout = t\<rparr>,
                 ''http://localhost:'' @ str_of_int p)),
      w\<lparr>trace := trace w @ map (\<lambda>q. ServerClass (Some ''localhost'') (Some q) t) (ps1 @ [p]),
        open_sockets := open_sockets w @ [(Some ''localhost'', Some p)]\<rparr>)"
  by (induction ps1 arbitrary: w) (simp_all add: Let_def log_def bind_server_def)

lemma scan_ports_keeps:
  "serviced (snd (scan_ports env t ps w)) = serviced w
   \<and> waits (trace (snd (scan_ports env t ps w))) = waits (trace w)"
proof (induction ps arbitrary: w)
  case Nil
  show ?case by simp
next
  case (Cons p ps)
  show ?case
  proof (cases "server_class env (Some ''localhost'') (Some p) t")
    case None
    then show ?thesis by (simp add: Let_def log_def bind_server_def waits_append)
  next
    case (Some ex)
    then show ?thesis
      using Cons.IH [of "log (ServerClass (Some ''localhost'') (Some p) t) w"]
      by (cases ex) (simp_all add: Let_def log_def waits_append)
  qed
qed

lemma scan_ports_bound:
  "scan_ports env t ps w = (Inr (Some (server, uri)), w1) \<Longrightarrow>
   (srv_hostname server, srv_port server) \<in> set (open_sockets w1)
   \<and> (\<exists>evs. trace w1 =
          trace w @ evs @ [ServerClass (srv_hostname server) (srv_port server) (srv_timeout server)])"
proof (induction ps arbitrary: w)
  case Nil
  then show ?case by simp
next
  case (Cons p ps)
  show ?case
  proof (cases "server_class env (Some ''localhost'') (Some p) t")
    case None
    then show ?thesis using Cons.prems
      by (auto simp: Let_def log_def bind_server_def)
  next
    case (Some ex)
    show ?thesis
    proof (cases "ex = SocketError")
      case True
      with Some Cons.prems
      have "scan_ports env t ps (log (ServerClass (Some ''localhost'') (Some p) t) w) =
              (Inr (Some (server, uri)), w1)"
        by (simp add: Let_def)
      from Cons.IH [OF this] show ?thesis
        by (auto simp: log_def)
    next
      case False
      with Some Cons.prems show ?thesis
        by (cases ex) (simp_all add: Let_def)
    qed
  qed
qed

text \<open>Starting the server services no request; when it succeeds the socket is bound.\<close>

lemma start_server_keeps:
  "serviced (snd (start_server env self w)) = serviced w
   \<and> waits (trace (snd (start_server env self w))) = waits (trace w)"
proof (cases "parsed_url self")
  case None
  then show ?thesis
    using scan_ports_keeps [of env "timeout self" port_range w]
    by (auto simp: start_server_def split: prod.splits sum.splits option.splits)
next
  case (Some u)
  then show ?thesis
    by (auto simp: start_server_def Let_def log_def bind_server_def waits_append
             split: sum.splits option.splits exn.splits)
qed

lemma start_server_bound:
  assumes "start_server env self w = (Inr (server, uri), w1)"
  shows "(srv_hostname server, srv_port server) \<in> set (open_sockets w1)
   \<and> (\<exists>evs. trace w1 =
          trace w @ evs @ [ServerClass (srv_hostname server) (srv_port server) (srv_timeout server)])"
proof (cases "parsed_url self")
  case None
  with assms have "scan_ports env (timeout self) port_range w = (Inr (Some (server, uri)), w1)"
    by (auto simp: start_server_def split: prod.splits sum.splits option.splits)
  from scan_ports_bound [OF this] show ?thesis .
next
  case (Some u)
  with assms show ?thesis
    by (auto simp: start_server_def Let_def log_def bind_server_def
             split: sum.splits option.splits exn.splits)
qed

text \<open>The run of \<open>explicit_credential\<close> up to the opening of the browser.\<close>

lemma explicit_start:
  "server_class env (Some ''localhost'') (Some 8400) 300 = None \<Longrightarrow>
   start_server env explicit_credential world0 =
     (Inr (example_server, ''http://localhost:8400''), bound_world)"
  by (simp add: start_server_def explicit_credential_def world0_def bound_world_def
        example_server_def bind_server_def log_def Let_def str_of_hostname_def str_of_port_def
        str_of_int_def str_of_nat.simps digit_char_def)

lemma explicit_browser:
  "webbrowser_open env (PyStr ''https://login.example/authorize'') = Inr True \<Longrightarrow>
   open_browser env (PyStr ''https://login.example/authorize'')
     (log (InitiateAuthCodeFlow [''scope''] ''http://localhost:8400'' ''select_account''
             (dict_get [] ''claims'') (login_hint explicit_credential))
        (log (GetApp []) bound_world)) = (Inr True, browser_world)"
  by (simp add: open_browser_def Let_def log_def bound_world_def browser_world_def
        example_initiate_def dict_get_def explicit_credential_def)

section \<open>The browser launcher\<close>

text \<open>
  Claim C8. \<^verbatim>\<open>_open_browser\<close> calls the fallback (\<^verbatim>\<open>subprocess.call\<close> of
  \<^verbatim>\<open>powershell.exe ... Start-Process "<url>"\<close>) if and only if \<^verbatim>\<open>webbrowser.open\<close>
  returned false, the lower-cased release contains \<^verbatim>\<open>microsoft\<close> and the lower-cased
  system is \<^verbatim>\<open>linux\<close>; the call has a timeout of 5 seconds. When the fallback runs the
  result is true exactly when the exit code is 0, and an exception of the fallback gives
  false instead of being raised. On any other platform a false result of
  \<^verbatim>\<open>webbrowser.open\<close> is returned as it is.
\<close>

theorem open_browser_fallback:
  "fallback_calls (trace (snd (open_browser env url w))) =
     fallback_calls (trace w) @
       (if webbrowser_open env url = Inr False
           \<and> str_contains ''microsoft'' (lower (uname_release (uname env)))
           \<and> lower (uname_system (uname env)) = ''linux''
        then [(powershell_args url, 5)] else [])
   \<and> (webbrowser_open env url = Inr False
        \<and> str_contains ''microsoft'' (lower (uname_release (uname env)))
        \<and> lower (uname_system (uname env)) = ''linux''
      \<longrightarrow> fst (open_browser env url w) = Inr (subprocess_call env (powershell_args url) 5 = Inr 0))
   \<and> (webbrowser_open env url = Inr False
        \<and> \<not> (str_contains ''microsoft'' (lower (uname_release (uname env)))
              \<and> lower (uname_system (uname env)) = ''linux'')
      \<longrightarrow> fst (open_browser env url w) = Inr False)"
  by (auto simp: open_browser_def Let_def log_def fallback_calls_append split: sum.splits)

theorem open_browser_fallback_witness:
  "webbrowser_open wsl_env (PyStr ''https://login.example/authorize'') = Inr False
   \<and> str_contains ''microsoft'' (lower (uname_release (uname wsl_env)))
   \<and> lower (uname_system (uname wsl_env)) = ''linux''
   \<and> fallback_calls (trace (snd (open_browser wsl_env (PyStr ''https://login.example/authorize'') world0))) =
       [([''powershell.exe'', ''-NoProfile'', ''-Command'',
          ''Start-Process \"https://login.example/authorize\"''], 5)]
   \<and> fst (open_browser wsl_env (PyStr ''https://login.example/authorize'') world0) = Inr True
   \<and> webbrowser_open no_browser_env (PyStr ''https://login.example/authorize'') = Inr False
   \<and> \<not> str_contains ''microsoft'' (lower (uname_release (uname no_browser_env)))
   \<and> fst (open_browser no_browser_env (PyStr ''https://login.example/authorize'') world0) =
       Inr False"
  using open_browser_fallback [of wsl_env "PyStr ''https://login.example/authorize''" world0]
    open_browser_fallback [of no_browser_env "PyStr ''https://login.example/authorize''" world0]
  by (simp add: wsl_env_def no_browser_env_def example_env_def world0_def powershell_args_def
        lower_def lower_char_def)

section \<open>The constructor of the browser credential\<close>

text \<open>
  Claim C10. When a non-empty \<^verbatim>\<open>redirect_uri\<close> is given and its parse has no hostname
  or no port, \<^verbatim>\<open>__init__\<close> raises \<^verbatim>\<open>ValueError\<close>, so no credential exists on which a
  flow could run. Hence a credential that was constructed has either no parsed URL or
  one with a non-empty hostname and a port (which is not 0 either), and the branch of
  \<^verbatim>\<open>_request_token\<close> for an explicit target calls the server class with that hostname
  and that port.
\<close>

theorem browser_init_redirect_uri:
  "(kw_redirect_uri kwargs = Some uri \<and> uri \<noteq> [] \<and> urlparse uri = Inr u
      \<and> (hostname u = None \<or> port u = Inr None)
     \<longrightarrow> (\<exists>msg. browser_init urlparse super_init kwargs = Inl (ValueError msg)))
   \<and> (browser_init urlparse super_init kwargs = Inr self
     \<longrightarrow> parsed_url self = None
         \<or> (\<exists>u h p. parsed_url self = Some u \<and> hostname u = Some h \<and> h \<noteq> []
                \<and> port u = Inr (Some p) \<and> p \<noteq> 0
                \<and> trace (snd (start_server env self w)) =
                    trace w @ [ServerClass (Some h) (Some p) (timeout self)]))"
proof (intro conjI impI)
  assume "kw_redirect_uri kwargs = Some uri \<and> uri \<noteq> [] \<and> urlparse uri = Inr u
      \<and> (hostname u = None \<or> port u = Inr None)"
  then show "\<exists>msg. browser_init urlparse super_init kwargs = Inl (ValueError msg)"
    by (auto simp: browser_init_def redirect_uri_error_def split: option.splits)
next
  assume made: "browser_init urlparse super_init kwargs = Inr self"
  show "parsed_url self = None
         \<or> (\<exists>u h p. parsed_url self = Some u \<and> hostname u = Some h \<and> h \<noteq> []
                \<and> port u = Inr (Some p) \<and> p \<noteq> 0
                \<and> trace (snd (start_server env self w)) =
                    trace w @ [ServerClass (Some h) (Some p) (timeout self)])"
  proof (cases "parsed_url self")
    case None
    then show ?thesis by simp
  next
    case (Some u)
    with made have "\<exists>h p. hostname u = Some h \<and> h \<noteq> [] \<and> port u = Inr (Some p) \<and> p \<noteq> 0"
      by (auto simp: browser_init_def split: option.splits sum.splits if_splits)
    then obtain h p
      where hp: "hostname u = Some h" "h \<noteq> []" "port u = Inr (Some p)" "p \<noteq> 0"
      by blast
    have "trace (snd (start_server env self w)) =
            trace w @ [ServerClass (Some h) (Some p) (timeout self)]"
      using Some hp
      by (auto simp: start_server_def Let_def log_def bind_server_def
               split: option.splits exn.splits)
    with Some hp show ?thesis by simp
  qed
qed

theorem browser_init_redirect_uri_witness:
  "kw_redirect_uri \<lparr>kw_redirect_uri = Some ''http://localhost'', kw_login_hint = None,
                     kw_timeout = None\<rparr> = Some ''http://localhost''
   \<and> urlparse_example ''http://localhost'' =
       Inr \<lparr>hostname = Some ''localhost'', port = Inr None\<rparr>
   \<and> (\<exists>msg. browser_init urlparse_example None
                \<lparr>kw_redirect_uri = Some ''http://localhost'', kw_login_hint = None,
                 kw_timeout = None\<rparr> = Inl (ValueError msg))
   \<and> browser_init urlparse_example None
        \<lparr>kw_redirect_uri = Some ''http://localhost:8400'', kw_login_hint = None,
         kw_timeout = None\<rparr> = Inr explicit_credential
   \<and> trace (snd (start_server example_env explicit_credential world0)) =
       [ServerClass (Some ''localhost'') (Some 8400) 300]"
proof -
  let ?bad = "\<lparr>kw_redirect_uri = Some ''http://localhost'', kw_login_hint = None,
               kw_timeout = None\<rparr>"
  let ?good = "\<lparr>kw_redirect_uri = Some ''http://localhost:8400'', kw_login_hint = None,
                kw_timeout = None\<rparr>"
  have parse: "urlparse_example ''http://localhost'' =
                 Inr \<lparr>hostname = Some ''localhost'', port = Inr None\<rparr>"
    by (simp add: urlparse_example_def)
  have made: "browser_init urlparse_example None ?good = Inr explicit_credential"
    by (simp add: browser_init_def urlparse_example_def explicit_credential_def)
  from browser_init_redirect_uri
         [of ?bad "''http://localhost''" urlparse_example
             "\<lparr>hostname = Some ''localhost'', port = Inr None\<rparr>" None]
       parse
  have raised: "\<exists>msg. browser_init urlparse_example None ?bad = Inl (ValueError msg)"
    by simp
  from browser_init_redirect_uri
         [of ?good _ urlparse_example _ None explicit_credential example_env world0]
       made
  have "trace (snd (start_server example_env explicit_credential world0)) =
          [ServerClass (Some ''localhost'') (Some 8400) 300]"
    by (simp add: explicit_credential_def world0_def)
  with parse made raised show ?thesis by simp
qed

section \<open>Starting the redirect listener\<close>

text \<open>
  Claim C2. Without an explicit redirect URI the server class is tried on the ports
  8400 to 8999 in increasing order. When the tries on all ports below \<open>p\<close> raise
  \<^verbatim>\<open>socket.error\<close> and the try on \<open>p\<close> succeeds, the tries are exactly those on 8400 to
  \<open>p\<close>, the server is the one on \<open>p\<close> and the redirect URI is
  \<^verbatim>\<open>http://localhost:<p>\<close> (so 8406 when 8400 to 8405 are taken). When the tries on all
  ports of the range raise \<^verbatim>\<open>socket.error\<close>, \<^verbatim>\<open>_request_token\<close> raises
  \<^verbatim>\<open>CredentialUnavailableError\<close> after having tried each port once.
\<close>

theorem port_scan:
  assumes "parsed_url self = None"
  shows "(8400 \<le> p \<and> p \<le> 8999
          \<and> (\<forall>q. 8400 \<le> q \<and> q < p \<longrightarrow>
                server_class env (Some ''localhost'') (Some q) (timeout self) = Some SocketError)
          \<and> server_class env (Some ''localhost'') (Some p) (timeout self) = None
         \<longrightarrow> start_server env self w =
              (Inr (\<lparr>srv_hostname = Some ''localhost'', srv_port = Some p,
                     srv_timeout = timeout self\<rparr>,
                    ''http://localhost:'' @ str_of_int p),
               w\<lparr>trace := trace w @
                    map (\<lambda>q. ServerClass (Some ''localhost'') (Some q) (timeout self)) [8400..p],
                 open_sockets := open_sockets w @ [(Some ''localhost'', Some p)]\<rparr>))
       \<and> ((\<forall>q. 8400 \<le> q \<and> q \<le> 8999 \<longrightarrow>
               server_class env (Some ''localhost'') (Some q) (timeout self) = Some SocketError)
         \<longrightarrow> browser_request_token env self scopes kwargs w =
              (Inl (CredentialUnavailableError ''Couldn't start an HTTP server on localhost''),
               w\<lparr>trace := trace w @
                    map (\<lambda>q. ServerClass (Some ''localhost'') (Some q) (timeout self))
                      port_range\<rparr>))"
proof (intro conjI impI)
  assume h: "8400 \<le> p \<and> p \<le> 8999
          \<and> (\<forall>q. 8400 \<le> q \<and> q < p \<longrightarrow>
                server_class env (Some ''localhost'') (Some q) (timeout self) = Some SocketError)
          \<and> server_class env (Some ''localhost'') (Some p) (timeout self) = None"
  then have split: "port_range = [8400..p - 1] @ p # [p + 1..8999]"
    by (simp add: port_range_split)
  have fails: "\<forall>q\<in>set [8400..p - 1].
      server_class env (Some ''localhost'') (Some q) (timeout self) = Some SocketError"
    using h by simp
  have upto: "[8400..p - 1] @ [p] = [8400..p]"
    using h by (simp add: upto_rec2)
  have "scan_ports env (timeout self) port_range w =
     (Inr (Some (\<lparr>srv_hostname = Some ''localhost'', srv_port = Some p,
                  srv_timeout = timeout self\<rparr>,
                 ''http://localhost:'' @ str_of_int p)),
      w\<lparr>trace := trace w @
           map (\<lambda>q. ServerClass (Some ''localhost'') (Some q) (timeout self)) [8400..p],
        open_sockets := open_sockets w @ [(Some ''localhost'', Some p)]\<rparr>)"
    unfolding split using scan_ports_first_free [OF fails, of p "[p + 1..8999]" w] h upto
    by simp
  then show "start_server env self w =
              (Inr (\<lparr>srv_hostname = Some ''localhost'', srv_port = Some p,
                     srv_timeout = timeout self\<rparr>,
                    ''http://localhost:'' @ str_of_int p),
               w\<lparr>trace := trace w @
                    map (\<lambda>q. ServerClass (Some ''localhost'') (Some q) (timeout self)) [8400..p],
                 open_sockets := open_sockets w @ [(Some ''localhost'', Some p)]\<rparr>)"
    using assms by (simp add: start_server_def)
next
  assume "\<forall>q. 8400 \<le> q \<and> q \<le> 8999 \<longrightarrow>
            server_class env (Some ''localhost'') (Some q) (timeout self) = Some SocketError"
  then have "\<forall>q\<in>set port_range.
      server_class env (Some ''localhost'') (Some q) (timeout self) = Some SocketError"
    by (simp add: set_port_range)
  from scan_ports_exhausted [OF this, of w]
  show "browser_request_token env self scopes kwargs w =
              (Inl (CredentialUnavailableError ''Couldn't start an HTTP server on localhost''),
               w\<lparr>trace := trace w @
                    map (\<lambda>q. ServerClass (Some ''localhost'') (Some q) (timeout self))
                      port_range\<rparr>)"
    using assms
    by (simp add: browser_request_token_def wrap_exceptions_def request_token_body_def
          start_server_def)
qed

theorem port_scan_witness:
  "parsed_url default_credential = None
   \<and> map (\<lambda>q. server_class busy_env (Some ''localhost'') (Some q) (timeout default_credential))
         [8400, 8401, 8402, 8403, 8404, 8405, 8406] =
       [Some SocketError, Some SocketError, Some SocketError, Some SocketError,
        Some SocketError, Some SocketError, None]
   \<and> fst (start_server busy_env default_credential world0) =
       Inr (\<lparr>srv_hostname = Some ''localhost'', srv_port = Some 8406, srv_timeout = 300\<rparr>,
            ''http://localhost:8406'')
   \<and> bind_attempts (trace (snd (start_server busy_env default_credential world0))) =
       map (\<lambda>q. (Some ''localhost'', Some q)) [8400, 8401, 8402, 8403, 8404, 8405, 8406]
   \<and> open_sockets (snd (start_server busy_env default_credential world0)) =
       [(Some ''localhost'', Some 8406)]
   \<and> server_class no_port_env = (\<lambda>h p t. Some SocketError)
   \<and> fst (browser_request_token no_port_env default_credential [''scope''] [] world0) =
        Inl (CredentialUnavailableError ''Couldn't start an HTTP server on localhost'')"
proof -
  have a: "parsed_url default_credential = None"
    by (simp add: default_credential_def)
  have b: "\<forall>q. 8400 \<le> q \<and> q < 8406 \<longrightarrow>
      server_class busy_env (Some ''localhost'') (Some q) (timeout default_credential) =
        Some SocketError"
    by (auto simp: busy_env_def)
  have c: "server_class busy_env (Some ''localhost'') (Some 8406) (timeout default_credential) =
             None"
    by (auto simp: busy_env_def)
  have d: "\<forall>q. 8400 \<le> q \<and> q \<le> 8999 \<longrightarrow>
      server_class no_port_env (Some ''localhost'') (Some q) (timeout default_credential) =
        Some SocketError"
    by (simp add: no_port_env_def)
  from port_scan [OF a, where p = 8406 and env = busy_env and w = world0]
    port_scan [OF a, where env = no_port_env and w = world0 and scopes = "[''scope'']"
                 and kwargs = "[]"]
    b c d
  have "start_server busy_env default_credential world0 =
     (Inr (\<lparr>srv_hostname = Some ''localhost'', srv_port = Some 8406,
            srv_timeout = timeout default_credential\<rparr>,
           ''http://localhost:'' @ str_of_int 8406),
      world0\<lparr>trace := trace world0 @
               map (\<lambda>q. ServerClass (Some ''localhost'') (Some q) (timeout default_credential))
                 [8400..8406],
             open_sockets := open_sockets world0 @ [(Some ''localhost'', Some 8406)]\<rparr>)"
   and "browser_request_token no_port_env default_credential [''scope''] [] world0 =
     (Inl (CredentialUnavailableError ''Couldn't start an HTTP server on localhost''),
      world0\<lparr>trace := trace world0 @
               map (\<lambda>q. ServerClass (Some ''localhost'') (Some q) (timeout default_credential))
                 port_range\<rparr>)"
    by simp_all
  then show ?thesis
    using a
    by (simp add: default_credential_def world0_def str_of_int_def str_of_nat.simps
          digit_char_def busy_env_def no_port_env_def)
qed

text \<open>
  Claim C6, as amended. With an explicit redirect URI, whatever happens afterwards, the
  server class is called exactly once in the whole of \<^verbatim>\<open>_request_token\<close>, with the
  hostname and the port of the parsed URL: no other port is tried. When that call
  raises \<^verbatim>\<open>socket.error\<close> the method raises \<^verbatim>\<open>CredentialUnavailableError\<close> at once, with
  the message \<^verbatim>\<open>Couldn't start an HTTP server on http://<hostname>:<port>\<close>, the address
  being put together from the parsed hostname and port.
\<close>

theorem explicit_target:
  assumes "parsed_url self = Some u" and "port u = Inr p"
  shows "bind_attempts (trace (snd (browser_request_token env self scopes kwargs w))) =
           bind_attempts (trace w) @ [(hostname u, p)]
       \<and> (server_class env (hostname u) p (timeout self) = Some SocketError \<longrightarrow>
            browser_request_token env self scopes kwargs w =
              (Inl (CredentialUnavailableError
                      (''Couldn't start an HTTP server on http://'' @ str_of_hostname (hostname u)
                         @ '':'' @ str_of_port p)),
               log (ServerClass (hostname u) p (timeout self)) w))"
proof (intro conjI impI)
  assume "server_class env (hostname u) p (timeout self) = Some SocketError"
  with assms show "browser_request_token env self scopes kwargs w =
              (Inl (CredentialUnavailableError
                      (''Couldn't start an HTTP server on http://'' @ str_of_hostname (hostname u)
                         @ '':'' @ str_of_port p)),
               log (ServerClass (hostname u) p (timeout self)) w)"
    by (simp add: browser_request_token_def wrap_exceptions_def request_token_body_def
          start_server_def Let_def)
next
  have started: "bind_attempts (trace (snd (start_server env self w))) =
      bind_attempts (trace w) @ [(hostname u, p)]"
    using assms
    by (auto simp: start_server_def Let_def log_def bind_server_def bind_attempts_append
             split: option.splits exn.splits)
  show "bind_attempts (trace (snd (browser_request_token env self scopes kwargs w))) =
           bind_attempts (trace w) @ [(hostname u, p)]"
  proof (cases "start_server env self w")
    case (Pair r w1)
    with started have w1: "bind_attempts (trace w1) = bind_attempts (trace w) @ [(hostname u, p)]"
      by simp
    show ?thesis
    proof (cases r)
      case (Inl ex)
      with Pair w1 show ?thesis
        by (simp add: browser_request_token_def wrap_exceptions_def request_token_body_def)
    next
      case (Inr sr)
      obtain server redirect_uri where sr: "sr = (server, redirect_uri)" by (cases sr)
      show ?thesis
        using Pair Inr sr w1 open_browser_keeps(4)
        by (auto simp: browser_request_token_def wrap_exceptions_def request_token_body_def
              Let_def log_def wait_for_redirect_def bind_attempts_append
              split: option.splits sum.splits prod.splits
              dest: arg_cong [where f = "\<lambda>r. bind_attempts (trace (snd r))"])
    qed
  qed
qed

theorem explicit_target_witness:
  "parsed_url explicit_credential = Some \<lparr>hostname = Some ''localhost'', port = Inr (Some 8400)\<rparr>
   \<and> server_class no_port_env (Some ''localhost'') (Some 8400) (timeout explicit_credential) =
       Some SocketError
   \<and> bind_attempts
       (trace (snd (browser_request_token example_env explicit_credential [''scope''] [] world0))) =
       [(Some ''localhost'', Some 8400)]
   \<and> browser_request_token no_port_env explicit_credential [''scope''] [] world0 =
       (Inl (CredentialUnavailableError ''Couldn't start an HTTP server on http://localhost:8400''),
        \<lparr>trace = [ServerClass (Some ''localhost'') (Some 8400) 300], open_sockets = [],
         serviced = 0\<rparr>)"
proof -
  let ?u = "\<lparr>hostname = Some ''localhost'', port = Inr (Some 8400)\<rparr>"
  have a: "parsed_url explicit_credential = Some ?u"
    by (simp add: explicit_credential_def)
  have b: "port ?u = Inr (Some 8400)"
    by simp
  have c: "server_class no_port_env (Some ''localhost'') (Some 8400)
             (timeout explicit_credential) = Some SocketError"
    by (simp add: no_port_env_def)
  from explicit_target [OF a b, of example_env "[''scope'']" "[]" world0]
    explicit_target [OF a b, of no_port_env "[''scope'']" "[]" world0] c
  show ?thesis
    using a
    by (simp add: explicit_credential_def world0_def log_def str_of_hostname_def str_of_port_def
          str_of_int_def str_of_nat.simps digit_char_def)
qed

text \<open>
  Claim C6 as it was stated fails on the message: a credential made with the redirect
  URI \<^verbatim>\<open>http://localhost:8400/callback\<close> whose port is taken raises
  \<^verbatim>\<open>Couldn't start an HTTP server on http://localhost:8400\<close>, which is not
  \<^verbatim>\<open>couldn't start a local HTTP server on\<close> followed by the configured redirect URI.
\<close>

theorem explicit_target_counterexample:
  "browser_init urlparse_example None
     \<lparr>kw_redirect_uri = Some ''http://localhost:8400/callback'', kw_login_hint = None,
      kw_timeout = None\<rparr> = Inr explicit_credential
   \<and> server_class no_port_env (Some ''localhost'') (Some 8400) 300 = Some SocketError
   \<and> fst (browser_request_token no_port_env explicit_credential [''scope''] [] world0) =
       Inl (CredentialUnavailableError ''Couldn't start an HTTP server on http://localhost:8400'')
   \<and> fst (browser_request_token no_port_env explicit_credential [''scope''] [] world0) \<noteq>
       Inl (CredentialUnavailableError
              (''couldn't start a local HTTP server on '' @ ''http://localhost:8400/callback''))"
  by (simp add: browser_init_def urlparse_example_def explicit_credential_def no_port_env_def
        example_env_def browser_request_token_def wrap_exceptions_def request_token_body_def
        start_server_def Let_def log_def world0_def str_of_hostname_def str_of_port_def
        str_of_int_def str_of_nat.simps digit_char_def)

section \<open>The authorization-code flow\<close>

text \<open>
  Claim C9. After the server was started and the application obtained: when the flow
  that \<^verbatim>\<open>initiate_auth_code_flow\<close> returns has no \<^verbatim>\<open>auth_uri\<close>, \<^verbatim>\<open>_request_token\<close>
  raises \<^verbatim>\<open>CredentialUnavailableError\<close> with the message
  \<^verbatim>\<open>Failed to begin authentication flow\<close> (the source spells the messages with a capital
  initial) and no browser was opened; when the flow has one and \<^verbatim>\<open>_open_browser\<close>
  returns false on it, the method raises \<^verbatim>\<open>CredentialUnavailableError\<close> with the message
  \<^verbatim>\<open>Failed to open a browser\<close>. The calls come in this order: the server class (the
  last try being the successful one, with the socket bound), then the flow initiation,
  then the browser.
\<close>

theorem flow_and_browser_failures:
  assumes "start_server env self w = (Inr (server, redirect_uri), w1)"
    and "get_app env kwargs = None"
    and "initiate_auth_code_flow env scopes redirect_uri ''select_account''
           (dict_get kwargs ''claims'') (login_hint self) = Inr flow"
  shows "(map_of flow ''auth_uri'' = None \<longrightarrow>
            browser_request_token env self scopes kwargs w =
              (Inl (CredentialUnavailableError ''Failed to begin authentication flow''),
               w1\<lparr>trace := trace w1 @
                   [GetApp kwargs,
                    InitiateAuthCodeFlow scopes redirect_uri ''select_account''
                      (dict_get kwargs ''claims'') (login_hint self)]\<rparr>))
       \<and> (map_of flow ''auth_uri'' = Some auth_uri
            \<and> fst (open_browser env auth_uri
                 (w1\<lparr>trace := trace w1 @
                   [GetApp kwargs,
                    InitiateAuthCodeFlow scopes redirect_uri ''select_account''
                      (dict_get kwargs ''claims'') (login_hint self)]\<rparr>)) = Inr False \<longrightarrow>
            fst (browser_request_token env self scopes kwargs w) =
              Inl (CredentialUnavailableError ''Failed to open a browser'')
            \<and> (\<exists>evs. trace (snd (browser_request_token env self scopes kwargs w)) =
                  trace w1 @
                   [GetApp kwargs,
                    InitiateAuthCodeFlow scopes redirect_uri ''select_account''
                      (dict_get kwargs ''claims'') (login_hint self),
                    WebbrowserOpen auth_uri] @ evs))
       \<and> (srv_hostname server, srv_port server) \<in> set (open_sockets w1)
       \<and> (\<exists>evs. trace w1 = trace w @ evs @
             [ServerClass (srv_hostname server) (srv_port server) (srv_timeout server)])"
proof (intro conjI impI)
  assume "map_of flow ''auth_uri'' = None"
  with assms show "browser_request_token env self scopes kwargs w =
              (Inl (CredentialUnavailableError ''Failed to begin authentication flow''),
               w1\<lparr>trace := trace w1 @
                   [GetApp kwargs,
                    InitiateAuthCodeFlow scopes redirect_uri ''select_account''
                      (dict_get kwargs ''claims'') (login_hint self)]\<rparr>)"
    by (simp add: browser_request_token_def wrap_exceptions_def request_token_body_def Let_def
          log_def)
next
  let ?w3 = "w1\<lparr>trace := trace w1 @
                   [GetApp kwargs,
                    InitiateAuthCodeFlow scopes redirect_uri ''select_account''
                      (dict_get kwargs ''claims'') (login_hint self)]\<rparr>"
  assume h: "map_of flow ''auth_uri'' = Some auth_uri
               \<and> fst (open_browser env auth_uri ?w3) = Inr False"
  then obtain w4 where ob: "open_browser env auth_uri ?w3 = (Inr False, w4)"
    by (cases "open_browser env auth_uri ?w3") simp
  from assms h ob have r: "browser_request_token env self scopes kwargs w =
      (Inl (CredentialUnavailableError ''Failed to open a browser''), w4)"
    by (simp add: browser_request_token_def wrap_exceptions_def request_token_body_def Let_def
          log_def)
  then show "fst (browser_request_token env self scopes kwargs w) =
              Inl (CredentialUnavailableError ''Failed to open a browser'')"
    by simp
  from open_browser_trace [of env auth_uri ?w3] ob r
  show "\<exists>evs. trace (snd (browser_request_token env self scopes kwargs w)) =
                  trace w1 @
                   [GetApp kwargs,
                    InitiateAuthCodeFlow scopes redirect_uri ''select_account''
                      (dict_get kwargs ''claims'') (login_hint self),
                    WebbrowserOpen auth_uri] @ evs"
    by simp
next
  from start_server_bound [OF assms(1)]
  show "(srv_hostname server, srv_port server) \<in> set (open_sockets w1)"
    and "\<exists>evs. trace w1 = trace w @ evs @
             [ServerClass (srv_hostname server) (srv_port server) (srv_timeout server)]"
    by blast+
qed

theorem flow_and_browser_failures_witness:
  "start_server no_auth_uri_env explicit_credential world0 =
     (Inr (example_server, ''http://localhost:8400''), bound_world)
   \<and> get_app no_auth_uri_env [] = None
   \<and> map_of [(''error'', PyStr ''invalid_request'')] ''auth_uri'' = None
   \<and> browser_request_token no_auth_uri_env explicit_credential [''scope''] [] world0 =
       (Inl (CredentialUnavailableError ''Failed to begin authentication flow''),
        \<lparr>trace = [ServerClass (Some ''localhost'') (Some 8400) 300, GetApp [], example_initiate],
         open_sockets = [(Some ''localhost'', Some 8400)], serviced = 0\<rparr>)
   \<and> start_server no_browser_env explicit_credential world0 =
       (Inr (example_server, ''http://localhost:8400''), bound_world)
   \<and> map_of example_auth_flow ''auth_uri'' = Some (PyStr ''https://login.example/authorize'')
   \<and> fst (browser_request_token no_browser_env explicit_credential [''scope''] [] world0) =
       Inl (CredentialUnavailableError ''Failed to open a browser'')
   \<and> (srv_hostname example_server, srv_port example_server) \<in> set (open_sockets bound_world)"
proof -
  have a1: "start_server no_auth_uri_env explicit_credential world0 =
              (Inr (example_server, ''http://localhost:8400''), bound_world)"
    by (rule explicit_start) (simp add: no_auth_uri_env_def example_env_def)
  have a2: "get_app no_auth_uri_env [] = None"
    by (simp add: no_auth_uri_env_def example_env_def)
  have a3: "initiate_auth_code_flow no_auth_uri_env [''scope''] ''http://localhost:8400''
              ''select_account'' (dict_get [] ''claims'') (login_hint explicit_credential) =
              Inr [(''error'', PyStr ''invalid_request'')]"
    by (simp add: no_auth_uri_env_def example_env_def)
  have b1: "start_server no_browser_env explicit_credential world0 =
              (Inr (example_server, ''http://localhost:8400''), bound_world)"
    by (rule explicit_start) (simp add: no_browser_env_def example_env_def)
  have b2: "get_app no_browser_env [] = None"
    by (simp add: no_browser_env_def example_env_def)
  have b3: "initiate_auth_code_flow no_browser_env [''scope''] ''http://localhost:8400''
              ''select_account'' (dict_get [] ''claims'') (login_hint explicit_credential) =
              Inr example_auth_flow"
    by (simp add: no_browser_env_def example_env_def)
  have b4: "map_of example_auth_flow ''auth_uri'' = Some (PyStr ''https://login.example/authorize'')"
    by (simp add: example_auth_flow_def)
  have b5: "fst (open_browser no_browser_env (PyStr ''https://login.example/authorize'')
              (bound_world\<lparr>trace := trace bound_world @
                 [GetApp [],
                  InitiateAuthCodeFlow [''scope''] ''http://localhost:8400'' ''select_account''
                    (dict_get [] ''claims'') (login_hint explicit_credential)]\<rparr>)) = Inr False"
    by (simp add: open_browser_def no_browser_env_def example_env_def Let_def lower_def
          lower_char_def)
  from flow_and_browser_failures [OF a1 a2 a3]
    flow_and_browser_failures [OF b1 b2 b3, of "PyStr ''https://login.example/authorize''"]
    b4 b5
  show ?thesis
    using a1 a2 b1
    by (simp add: bound_world_def example_initiate_def dict_get_def explicit_credential_def
          example_server_def)
qed

text \<open>
  Claim C1. Once the browser was opened: when \<^verbatim>\<open>wait_for_redirect\<close> returns nothing (the
  empty dictionary, after the timeout), \<^verbatim>\<open>_request_token\<close> raises
  \<^verbatim>\<open>CredentialUnavailableError\<close> if \<^verbatim>\<open>within_dac\<close> is set and
  \<^verbatim>\<open>ClientAuthenticationError\<close> otherwise, in both cases with the message
  \<^verbatim>\<open>Timed out after waiting <N> seconds for the user to authenticate\<close> (spelled with a
  capital initial in the source), \<open>N\<close> being the configured timeout.
\<close>

theorem redirect_timeout:
  assumes "start_server env self w = (Inr (server, redirect_uri), w1)"
    and "get_app env kwargs = None"
    and "initiate_auth_code_flow env scopes redirect_uri ''select_account''
           (dict_get kwargs ''claims'') (login_hint self) = Inr flow"
    and "map_of flow ''auth_uri'' = Some auth_uri"
    and "open_browser env auth_uri
           (log (InitiateAuthCodeFlow scopes redirect_uri ''select_account''
                   (dict_get kwargs ''claims'') (login_hint self))
              (log (GetApp kwargs) w1)) = (Inr True, w4)"
    and "fst (wait_for_redirect env server w4) = []"
  shows "fst (browser_request_token env self scopes kwargs w) =
           Inl ((if within_dac env then CredentialUnavailableError else ClientAuthenticationError)
                  (''Timed out after waiting '' @ str_of_int (timeout self)
                     @ '' seconds for the user to authenticate''))"
  using assms
  by (simp add: browser_request_token_def wrap_exceptions_def request_token_body_def Let_def
        wait_for_redirect_def timed_out_message_def)

theorem redirect_timeout_witness:
  "start_server (timeout_env False) explicit_credential world0 =
     (Inr (example_server, ''http://localhost:8400''), bound_world)
   \<and> get_app (timeout_env False) [] = None
   \<and> map_of example_auth_flow ''auth_uri'' = Some (PyStr ''https://login.example/authorize'')
   \<and> fst (wait_for_redirect (timeout_env False) example_server browser_world) = []
   \<and> fst (browser_request_token (timeout_env False) explicit_credential [''scope''] [] world0) =
       Inl (ClientAuthenticationError
              ''Timed out after waiting 300 seconds for the user to authenticate'')
   \<and> fst (browser_request_token (timeout_env True) explicit_credential [''scope''] [] world0) =
       Inl (CredentialUnavailableError
              ''Timed out after waiting 300 seconds for the user to authenticate'')"
proof -
  have h1: "start_server (timeout_env dac) explicit_credential world0 =
              (Inr (example_server, ''http://localhost:8400''), bound_world)" for dac
    by (rule explicit_start) (simp add: timeout_env_def example_env_def)
  have h2: "get_app (timeout_env dac) [] = None" for dac
    by (simp add: timeout_env_def example_env_def)
  have h3: "initiate_auth_code_flow (timeout_env dac) [''scope''] ''http://localhost:8400''
              ''select_account'' (dict_get [] ''claims'') (login_hint explicit_credential) =
              Inr example_auth_flow" for dac
    by (simp add: timeout_env_def example_env_def)
  have h4: "map_of example_auth_flow ''auth_uri'' = Some (PyStr ''https://login.example/authorize'')"
    by (simp add: example_auth_flow_def)
  have h5: "open_browser (timeout_env dac) (PyStr ''https://login.example/authorize'')
              (log (InitiateAuthCodeFlow [''scope''] ''http://localhost:8400'' ''select_account''
                      (dict_get [] ''claims'') (login_hint explicit_credential))
                 (log (GetApp []) bound_world)) = (Inr True, browser_world)" for dac
    by (rule explicit_browser) (simp add: timeout_env_def example_env_def)
  have h6: "fst (wait_for_redirect (timeout_env dac) example_server browser_world) = []" for dac
    by (simp add: wait_for_redirect_def timeout_env_def example_env_def Let_def)
  from redirect_timeout [OF h1 h2 h3 h4 h5 h6, of False]
    redirect_timeout [OF h1 h2 h3 h4 h5 h6, of True]
  show ?thesis
    using h1 [of False] h2 [of False] h4 h6 [of False]
    by (simp add: timeout_env_def explicit_credential_def str_of_int_def str_of_nat.simps
          digit_char_def)
qed

text \<open>
  Claim C4. Once the browser was opened: when \<^verbatim>\<open>wait_for_redirect\<close> returns the query
  parameters of a redirect, \<^verbatim>\<open>acquire_token_by_auth_code_flow\<close> is called with the flow
  that \<^verbatim>\<open>initiate_auth_code_flow\<close> returned, those parameters as they are, the same
  scopes and the same claims, and what it returns or raises is what \<^verbatim>\<open>_request_token\<close>
  returns or raises.
\<close>

theorem redirect_redeemed:
  assumes "start_server env self w = (Inr (server, redirect_uri), w1)"
    and "get_app env kwargs = None"
    and "initiate_auth_code_flow env scopes redirect_uri ''select_account''
           (dict_get kwargs ''claims'') (login_hint self) = Inr flow"
    and "map_of flow ''auth_uri'' = Some auth_uri"
    and "open_browser env auth_uri
           (log (InitiateAuthCodeFlow scopes redirect_uri ''select_account''
                   (dict_get kwargs ''claims'') (login_hint self))
              (log (GetApp kwargs) w1)) = (Inr True, w4)"
    and "fst (wait_for_redirect env server w4) \<noteq> []"
  shows "browser_request_token env self scopes kwargs w =
           (acquire_token_by_auth_code_flow env flow (fst (wait_for_redirect env server w4))
              scopes (dict_get kwargs ''claims''),
            log (AcquireTokenByAuthCodeFlow flow (fst (wait_for_redirect env server w4))
                   scopes (dict_get kwargs ''claims''))
              (snd (wait_for_redirect env server w4)))"
  using assms
  by (simp add: browser_request_token_def wrap_exceptions_def request_token_body_def Let_def
        wait_for_redirect_def)

theorem redirect_redeemed_witness:
  "start_server example_env explicit_credential world0 =
     (Inr (example_server, ''http://localhost:8400''), bound_world)
   \<and> fst (wait_for_redirect example_env example_server browser_world) =
       [(''code'', PyStr ''abc''), (''state'', PyStr ''xyz'')]
   \<and> browser_request_token example_env explicit_credential [''scope''] [] world0 =
       (Inr [(''access_token'', PyStr ''secret'')],
        \<lparr>trace = [ServerClass (Some ''localhost'') (Some 8400) 300, GetApp [], example_initiate,
                  WebbrowserOpen (PyStr ''https://login.example/authorize''),
                  WaitForRedirect example_server,
                  AcquireTokenByAuthCodeFlow example_auth_flow
                    [(''code'', PyStr ''abc''), (''state'', PyStr ''xyz'')] [''scope''] PyNone],
         open_sockets = [], serviced = 1\<rparr>)
   \<and> fst (browser_request_token exchange_error_env explicit_credential [''scope''] [] world0) =
       Inl (ValueError ''state mismatch'')"
proof -
  have h1: "start_server example_env explicit_credential world0 =
              (Inr (example_server, ''http://localhost:8400''), bound_world)"
    by (rule explicit_start) (simp add: example_env_def)
  have h2: "get_app example_env [] = None"
    by (simp add: example_env_def)
  have h3: "initiate_auth_code_flow example_env [''scope''] ''http://localhost:8400''
              ''select_account'' (dict_get [] ''claims'') (login_hint explicit_credential) =
              Inr example_auth_flow"
    by (simp add: example_env_def)
  have h4: "map_of example_auth_flow ''auth_uri'' = Some (PyStr ''https://login.example/authorize'')"
    by (simp add: example_auth_flow_def)
  have h5: "open_browser example_env (PyStr ''https://login.example/authorize'')
              (log (InitiateAuthCodeFlow [''scope''] ''http://localhost:8400'' ''select_account''
                      (dict_get [] ''claims'') (login_hint explicit_credential))
                 (log (GetApp []) bound_world)) = (Inr True, browser_world)"
    by (rule explicit_browser) (simp add: example_env_def)
  have h6: "fst (wait_for_redirect example_env example_server browser_world) \<noteq> []"
    by (simp add: wait_for_redirect_def example_env_def Let_def)
  have e1: "start_server exchange_error_env explicit_credential world0 =
              (Inr (example_server, ''http://localhost:8400''), bound_world)"
    by (rule explicit_start) (simp add: exchange_error_env_def example_env_def)
  have e2: "get_app exchange_error_env [] = None"
    by (simp add: exchange_error_env_def example_env_def)
  have e3: "initiate_auth_code_flow exchange_error_env [''scope''] ''http://localhost:8400''
              ''select_account'' (dict_get [] ''claims'') (login_hint explicit_credential) =
              Inr example_auth_flow"
    by (simp add: exchange_error_env_def example_env_def)
  have e5: "open_browser exchange_error_env (PyStr ''https://login.example/authorize'')
              (log (InitiateAuthCodeFlow [''scope''] ''http://localhost:8400'' ''select_account''
                      (dict_get [] ''claims'') (login_hint explicit_credential))
                 (log (GetApp []) bound_world)) = (Inr True, browser_world)"
    by (rule explicit_browser) (simp add: exchange_error_env_def example_env_def)
  have e6: "fst (wait_for_redirect exchange_error_env example_server browser_world) \<noteq> []"
    by (simp add: wait_for_redirect_def exchange_error_env_def example_env_def Let_def)
  from redirect_redeemed [OF h1 h2 h3 h4 h5 h6] redirect_redeemed [OF e1 e2 e3 h4 e5 e6]
  show ?thesis
    using h1
    by (simp add: wait_for_redirect_def example_env_def exchange_error_env_def Let_def log_def
          browser_world_def example_server_def dict_get_def)
qed

text \<open>
  Claim C5, as amended. On every exit of \<^verbatim>\<open>_request_token\<close> that comes after the call of
  \<^verbatim>\<open>wait_for_redirect\<close> (a token, a timeout, or whatever the token exchange raises), the
  socket of the listener is no longer bound when the method returns, \<^verbatim>\<open>wait_for_redirect\<close>
  having released it, and that call is the only one made on the listener. On every exit
  whatsoever \<^verbatim>\<open>wait_for_redirect\<close> is called at most once and at most one inbound
  request is serviced.
\<close>

theorem listener_release:
  "(start_server env self w = (Inr (server, redirect_uri), w1)
      \<and> get_app env kwargs = None
      \<and> initiate_auth_code_flow env scopes redirect_uri ''select_account''
           (dict_get kwargs ''claims'') (login_hint self) = Inr flow
      \<and> map_of flow ''auth_uri'' = Some auth_uri
      \<and> fst (open_browser env auth_uri
           (log (InitiateAuthCodeFlow scopes redirect_uri ''select_account''
                   (dict_get kwargs ''claims'') (login_hint self))
              (log (GetApp kwargs) w1))) = Inr True
     \<longrightarrow> (srv_hostname server, srv_port server)
            \<notin> set (open_sockets (snd (browser_request_token env self scopes kwargs w)))
         \<and> waits (trace (snd (browser_request_token env self scopes kwargs w))) =
             waits (trace w) @ [server])
   \<and> serviced (snd (browser_request_token env self scopes kwargs w)) \<le> serviced w + 1
   \<and> length (waits (trace (snd (browser_request_token env self scopes kwargs w))))
       \<le> length (waits (trace w)) + 1"
proof (intro conjI impI)
  let ?R = "browser_request_token env self scopes kwargs w"
  let ?w3 = "log (InitiateAuthCodeFlow scopes redirect_uri ''select_account''
                   (dict_get kwargs ''claims'') (login_hint self))
              (log (GetApp kwargs) w1)"
  assume h: "start_server env self w = (Inr (server, redirect_uri), w1)
      \<and> get_app env kwargs = None
      \<and> initiate_auth_code_flow env scopes redirect_uri ''select_account''
           (dict_get kwargs ''claims'') (login_hint self) = Inr flow
      \<and> map_of flow ''auth_uri'' = Some auth_uri
      \<and> fst (open_browser env auth_uri ?w3) = Inr True"
  then obtain w4 where ob: "open_browser env auth_uri ?w3 = (Inr True, w4)"
    by (cases "open_browser env auth_uri ?w3") simp
  have w4: "waits (trace w4) = waits (trace w)"
    using open_browser_keeps(3) [of env auth_uri ?w3] ob start_server_keeps [of env self w] h
    by (simp add: log_def waits_append)
  from h ob show "(srv_hostname server, srv_port server) \<notin> set (open_sockets (snd ?R))"
    by (simp add: browser_request_token_def wrap_exceptions_def request_token_body_def Let_def
          wait_for_redirect_def log_def)
  from h ob w4 show "waits (trace (snd ?R)) = waits (trace w) @ [server]"
    by (simp add: browser_request_token_def wrap_exceptions_def request_token_body_def Let_def
          wait_for_redirect_def log_def waits_append)
next
  let ?R = "browser_request_token env self scopes kwargs w"
  obtain r w1 where ss: "start_server env self w = (r, w1)"
    by (cases "start_server env self w")
  with start_server_keeps [of env self w]
  have w1: "serviced w1 = serviced w" "waits (trace w1) = waits (trace w)"
    by simp_all
  have both: "serviced (snd ?R) \<le> serviced w + 1
     \<and> length (waits (trace (snd ?R))) \<le> length (waits (trace w)) + 1"
  proof (cases r)
    case (Inl ex)
    with ss w1 show ?thesis
      by (simp add: browser_request_token_def wrap_exceptions_def request_token_body_def)
  next
    case (Inr sr)
    obtain server redirect_uri where sr: "sr = (server, redirect_uri)" by (cases sr)
    show ?thesis
      using ss Inr sr w1 open_browser_keeps(2,3)
      by (auto simp: browser_request_token_def wrap_exceptions_def request_token_body_def
            Let_def log_def wait_for_redirect_def waits_append
            split: option.splits sum.splits prod.splits
            dest: arg_cong [where f = "\<lambda>r. serviced (snd r)"]
                  arg_cong [where f = "\<lambda>r. waits (trace (snd r))"])
  qed
  from both show "serviced (snd ?R) \<le> serviced w + 1" by simp
  from both show "length (waits (trace (snd ?R))) \<le> length (waits (trace w)) + 1" by simp
qed

theorem listener_release_witness:
  "start_server (timeout_env False) explicit_credential world0 =
     (Inr (example_server, ''http://localhost:8400''), bound_world)
   \<and> (srv_hostname example_server, srv_port example_server) \<in> set (open_sockets bound_world)
   \<and> (srv_hostname example_server, srv_port example_server)
       \<notin> set (open_sockets
                (snd (browser_request_token (timeout_env False) explicit_credential
                        [''scope''] [] world0)))
   \<and> waits (trace (snd (browser_request_token (timeout_env False) explicit_credential
                          [''scope''] [] world0))) = [example_server]
   \<and> serviced (snd (browser_request_token (timeout_env False) explicit_credential
                      [''scope''] [] world0)) \<le> 1"
proof -
  have h1: "start_server (timeout_env False) explicit_credential world0 =
              (Inr (example_server, ''http://localhost:8400''), bound_world)"
    by (rule explicit_start) (simp add: timeout_env_def example_env_def)
  have h2: "get_app (timeout_env False) [] = None"
    by (simp add: timeout_env_def example_env_def)
  have h3: "initiate_auth_code_flow (timeout_env False) [''scope''] ''http://localhost:8400''
              ''select_account'' (dict_get [] ''claims'') (login_hint explicit_credential) =
              Inr example_auth_flow"
    by (simp add: timeout_env_def example_env_def)
  have h4: "map_of example_auth_flow ''auth_uri'' = Some (PyStr ''https://login.example/authorize'')"
    by (simp add: example_auth_flow_def)
  have h5: "open_browser (timeout_env False) (PyStr ''https://login.example/authorize'')
              (log (InitiateAuthCodeFlow [''scope''] ''http://localhost:8400'' ''select_account''
                      (dict_get [] ''claims'') (login_hint explicit_credential))
                 (log (GetApp []) bound_world)) = (Inr True, browser_world)"
    by (rule explicit_browser) (simp add: timeout_env_def example_env_def)
  from listener_release
         [of "timeout_env False" explicit_credential world0 example_server
             "''http://localhost:8400''" bound_world "[]" "[''scope'']" example_auth_flow
             "PyStr ''https://login.example/authorize''"]
       h1 h2 h3 h4 h5
  show ?thesis
    by (simp add: world0_def bound_world_def example_server_def)
qed

text \<open>
  Claim C5 as it was stated fails on the exits between the start of the server and
  \<^verbatim>\<open>wait_for_redirect\<close>: when the browser cannot be opened the method raises with the
  socket of the listener still bound, no call having been made on the listener.
\<close>

theorem listener_release_counterexample:
  "fst (start_server no_browser_env explicit_credential world0) =
     Inr (example_server, ''http://localhost:8400'')
   \<and> browser_request_token no_browser_env explicit_credential [''scope''] [] world0 =
       (Inl (CredentialUnavailableError ''Failed to open a browser''),
        \<lparr>trace = [ServerClass (Some ''localhost'') (Some 8400) 300, GetApp [], example_initiate,
                  WebbrowserOpen (PyStr ''https://login.example/authorize''), Uname],
         open_sockets = [(Some ''localhost'', Some 8400)], serviced = 0\<rparr>)
   \<and> open_sockets
       (snd (browser_request_token no_browser_env explicit_credential [''scope''] [] world0)) \<noteq> []"
  by (simp add: browser_request_token_def wrap_exceptions_def request_token_body_def
        start_server_def open_browser_def no_browser_env_def example_env_def
        example_auth_flow_def explicit_credential_def example_server_def example_initiate_def
        world0_def Let_def log_def bind_server_def dict_get_def lower_def lower_char_def
        str_of_hostname_def str_of_port_def str_of_int_def str_of_nat.simps digit_char_def)

section \<open>The device-code flow\<close>

text \<open>
  Claim C3. Once the prompt was shown, \<^verbatim>\<open>acquire_token_by_device_flow\<close> is called with an
  exit condition if and only if a timeout was configured and is strictly less than the
  flow's \<^verbatim>\<open>expires_in\<close>. The exit condition then is \<^verbatim>\<open>time.time() > deadline\<close> with the
  deadline \<^verbatim>\<open>int(time.time()) + timeout\<close> read at that moment, so it holds as soon as the
  clock is past the time of the call plus the timeout. Otherwise the call has no exit
  condition and the collaborator polls until the device code expires. (The polling loop
  itself is the collaborator's.)
\<close>

theorem device_deadline_policy:
  assumes "dev_get_app env kwargs = None"
    and "initiate_device_flow env scopes = Inr flow"
    and "map_of flow ''error'' = None"
    and "show_prompt env self flow (log (InitiateDeviceFlow scopes) (log (GetApp kwargs) w)) =
           (Inr (), w3)"
  shows "(device_timeout self = Some t \<and> map_of flow ''expires_in'' = Some (PyInt n) \<and> t < n
          \<longrightarrow> snd (device_request_token env self scopes kwargs w) =
                log (AcquireTokenByDeviceFlow flow
                       (Some (TimeAfter (py_int (time_time env) + t))) (dict_get kwargs ''claims''))
                  (log TimeTime w3))
       \<and> (device_timeout self = None
            \<or> device_timeout self = Some t \<and> map_of flow ''expires_in'' = Some (PyInt n)
                \<and> \<not> t < n
          \<longrightarrow> snd (device_request_token env self scopes kwargs w) =
                log (AcquireTokenByDeviceFlow flow None (dict_get kwargs ''claims'')) w3)
       \<and> (exit_condition_holds (TimeAfter (py_int (time_time env) + t)) now
            \<longleftrightarrow> of_int (py_int (time_time env) + t) < now)
       \<and> (0 \<le> time_time env \<and> time_time env + of_int t < now
          \<longrightarrow> exit_condition_holds (TimeAfter (py_int (time_time env) + t)) now)"
proof (intro conjI impI)
  assume "device_timeout self = Some t \<and> map_of flow ''expires_in'' = Some (PyInt n) \<and> t < n"
  with assms show "snd (device_request_token env self scopes kwargs w) =
                log (AcquireTokenByDeviceFlow flow
                       (Some (TimeAfter (py_int (time_time env) + t))) (dict_get kwargs ''claims''))
                  (log TimeTime w3)"
    by (auto simp: device_request_token_def wrap_exceptions_def device_request_token_body_def
          Let_def poll_def dict_index_def split: sum.splits)
next
  assume "device_timeout self = None
            \<or> device_timeout self = Some t \<and> map_of flow ''expires_in'' = Some (PyInt n)
                \<and> \<not> t < n"
  with assms show "snd (device_request_token env self scopes kwargs w) =
                log (AcquireTokenByDeviceFlow flow None (dict_get kwargs ''claims'')) w3"
    by (auto simp: device_request_token_def wrap_exceptions_def device_request_token_body_def
          Let_def poll_def dict_index_def split: sum.splits)
next
  show "exit_condition_holds (TimeAfter (py_int (time_time env) + t)) now
          \<longleftrightarrow> of_int (py_int (time_time env) + t) < now"
    by simp
next
  assume "0 \<le> time_time env \<and> time_time env + of_int t < now"
  with py_int_le [of "time_time env"]
  show "exit_condition_holds (TimeAfter (py_int (time_time env) + t)) now"
    by simp
qed

theorem device_deadline_policy_witness:
  "dev_get_app example_device_env [] = None
   \<and> initiate_device_flow example_device_env [''scope''] = Inr example_flow
   \<and> map_of example_flow ''error'' = None
   \<and> map_of example_flow ''expires_in'' = Some (PyInt 600)
   \<and> show_prompt example_device_env (example_device_credential (Some 5)) example_flow
        (log (InitiateDeviceFlow [''scope'']) (log (GetApp []) world0)) = (Inr (), prompted_world)
   \<and> snd (device_request_token example_device_env (example_device_credential (Some 5))
             [''scope''] [] world0) =
       log (AcquireTokenByDeviceFlow example_flow (Some (TimeAfter 1700000005)) PyNone)
         (log TimeTime prompted_world)
   \<and> snd (device_request_token example_device_env (example_device_credential (Some 600))
             [''scope''] [] world0) =
       log (AcquireTokenByDeviceFlow example_flow None PyNone) prompted_world
   \<and> snd (device_request_token example_device_env (example_device_credential None)
             [''scope''] [] world0) =
       log (AcquireTokenByDeviceFlow example_flow None PyNone) prompted_world
   \<and> exit_condition_holds (TimeAfter 1700000005) (1700000005 + 3 / 4)
   \<and> \<not> exit_condition_holds (TimeAfter 1700000005) 1700000005"
proof -
  have h1: "dev_get_app example_device_env [] = None"
    by (simp add: example_device_env_def)
  have h2: "initiate_device_flow example_device_env [''scope''] = Inr example_flow"
    by (simp add: example_device_env_def)
  have h3: "map_of example_flow ''error'' = None"
    by (simp add: example_flow_def)
  have h4: "show_prompt example_device_env (example_device_credential t) example_flow
              (log (InitiateDeviceFlow [''scope'']) (log (GetApp []) world0)) =
              (Inr (), prompted_world)" for t
    by (simp add: show_prompt_def example_device_credential_def example_flow_def dict_index_def
          log_def world0_def prompted_world_def)
  have h5: "map_of example_flow ''expires_in'' = Some (PyInt 600)"
    by (simp add: example_flow_def)
  have now: "py_int (time_time example_device_env) = 1700000000"
    by (simp add: example_device_env_def py_int_def floor_eq_iff)
  from device_deadline_policy [OF h1 h2 h3 h4, of "Some 5" 5 600 "1700000005 + 3 / 4"]
    device_deadline_policy [OF h1 h2 h3 h4, of "Some 600" 600 600]
    device_deadline_policy [OF h1 h2 h3 h4, of None]
    h5 now
  show ?thesis
    using h1 h2 h3 h4 [of "Some 5"]
    by (simp add: example_device_credential_def dict_get_def example_device_env_def)
qed

text \<open>
  Claim C7. When the polling returns a result without \<^verbatim>\<open>access_token\<close> whose \<^verbatim>\<open>error\<close>
  is \<^verbatim>\<open>authorization_pending\<close>, \<^verbatim>\<open>_request_token\<close> raises \<^verbatim>\<open>ClientAuthenticationError\<close>
  with the message \<^verbatim>\<open>Timed out waiting for user to authenticate\<close> (spelled with a capital
  initial in the source); a result with any other \<^verbatim>\<open>error\<close> is returned as it is.
\<close>

theorem device_timed_out:
  assumes "dev_get_app env kwargs = None"
    and "initiate_device_flow env scopes = Inr flow"
    and "map_of flow ''error'' = None"
    and "show_prompt env self flow (log (InitiateDeviceFlow scopes) (log (GetApp kwargs) w)) =
           (Inr (), w3)"
    and "poll env self flow kwargs w3 = (Inr result, w4)"
  shows "(map_of result ''access_token'' = None
            \<and> dict_get result ''error'' = PyStr ''authorization_pending''
          \<longrightarrow> device_request_token env self scopes kwargs w =
                (Inl (ClientAuthenticationError ''Timed out waiting for user to authenticate''), w4))
       \<and> (dict_get result ''error'' \<noteq> PyStr ''authorization_pending''
          \<longrightarrow> device_request_token env self scopes kwargs w = (Inr result, w4))"
  using assms
  by (simp add: device_request_token_def wrap_exceptions_def device_request_token_body_def Let_def)

theorem device_timed_out_witness:
  "dev_get_app example_device_env [] = None
   \<and> initiate_device_flow example_device_env [''scope''] = Inr example_flow
   \<and> map_of example_flow ''error'' = None
   \<and> poll example_device_env (example_device_credential (Some 5)) example_flow []
        prompted_world =
       (Inr [(''error'', PyStr ''authorization_pending'')],
        log (AcquireTokenByDeviceFlow example_flow (Some (TimeAfter 1700000005)) PyNone)
          (log TimeTime prompted_world))
   \<and> device_request_token example_device_env (example_device_credential (Some 5))
        [''scope''] [] world0 =
       (Inl (ClientAuthenticationError ''Timed out waiting for user to authenticate''),
        log (AcquireTokenByDeviceFlow example_flow (Some (TimeAfter 1700000005)) PyNone)
          (log TimeTime prompted_world))
   \<and> device_request_token declined_device_env (example_device_credential (Some 5))
        [''scope''] [] world0 =
       (Inr [(''error'', PyStr ''authorization_declined'')],
        log (AcquireTokenByDeviceFlow example_flow (Some (TimeAfter 1700000005)) PyNone)
          (log TimeTime prompted_world))"
proof -
  let ?self = "example_device_credential (Some 5)"
  let ?w4 = "log (AcquireTokenByDeviceFlow example_flow (Some (TimeAfter 1700000005)) PyNone)
               (log TimeTime prompted_world)"
  have h1: "dev_get_app example_device_env [] = None"
      and d1: "dev_get_app declined_device_env [] = None"
    by (simp_all add: declined_device_env_def example_device_env_def)
  have h2: "initiate_device_flow example_device_env [''scope''] = Inr example_flow"
      and d2: "initiate_device_flow declined_device_env [''scope''] = Inr example_flow"
    by (simp_all add: declined_device_env_def example_device_env_def)
  have h3: "map_of example_flow ''error'' = None"
    by (simp add: example_flow_def)
  have h4: "show_prompt env ?self example_flow
              (log (InitiateDeviceFlow [''scope'']) (log (GetApp []) world0)) =
              (Inr (), prompted_world)" for env
    by (simp add: show_prompt_def example_device_credential_def example_flow_def dict_index_def
          log_def world0_def prompted_world_def)
  have now: "\<lfloor>(3400000001 :: rat) / 2\<rfloor> = 1700000000"
    by (simp add: floor_eq_iff)
  have h5: "poll example_device_env ?self example_flow [] prompted_world =
              (Inr [(''error'', PyStr ''authorization_pending'')], ?w4)"
    by (simp add: poll_def example_device_credential_def example_flow_def dict_index_def
          dict_get_def example_device_env_def py_int_def now Let_def)
  have d5: "poll declined_device_env ?self example_flow [] prompted_world =
              (Inr [(''error'', PyStr ''authorization_declined'')], ?w4)"
    by (simp add: poll_def example_device_credential_def example_flow_def dict_index_def
          dict_get_def declined_device_env_def example_device_env_def py_int_def now Let_def)
  from device_timed_out [OF h1 h2 h3 h4 h5] device_timed_out [OF d1 d2 h3 h4 d5]
  show ?thesis
    using h1 h2 h3 h5
    by (simp add: dict_get_def)
qed

end
